theory Spec2Isabelle
  imports Complex_Main "HOL-Library.Sublist"
begin

section \<open>Python values\<close>

text \<open>
  A Python \<^verbatim>\<open>float\<close> is either finite (modelled by the real number it denotes; both zeros
  denote \<open>0\<close>), an infinity, or not-a-number. A number is an \<^verbatim>\<open>int\<close> (unbounded) or a
  \<^verbatim>\<open>float\<close>.
\<close>

datatype pyfloat = Finite real | PosInf | NegInf | NaN

datatype pynum = PyInt int | PyFloat pyfloat

text \<open>
  The values \<^verbatim>\<open>response.json()\<close> can return: \<^verbatim>\<open>None\<close> (JSON null), booleans, numbers,
  strings, lists, and dicts with string keys. A dict is the list of its items; a lookup takes
  the first item with the key (\<open>map_of\<close>).
\<close>

datatype pyval =
    PyNone
  | PyBool bool
  | PyNum pynum
  | PyStr string
  | PyList "pyval list"
  | PyDict "(string \<times> pyval) list"

text \<open>Truth value of a number: \<^verbatim>\<open>bool(x)\<close> is \<^verbatim>\<open>x != 0\<close>; a NaN and the infinities are true.\<close>

fun truthy_float :: "pyfloat \<Rightarrow> bool" where
  "truthy_float (Finite r) = (r \<noteq> 0)"
| "truthy_float PosInf = True"
| "truthy_float NegInf = True"
| "truthy_float NaN = True"

fun truthy_num :: "pynum \<Rightarrow> bool" where
  "truthy_num (PyInt i) = (i \<noteq> 0)"
| "truthy_num (PyFloat f) = truthy_float f"

text \<open>Truth value of an attribute that holds \<^verbatim>\<open>None\<close> or a number.\<close>

fun truthy :: "pynum option \<Rightarrow> bool" where
  "truthy None = False"
| "truthy (Some n) = truthy_num n"

subsection \<open>\<^verbatim>\<open>str\<close> of a number\<close>

definition digit_char :: "nat \<Rightarrow> char" where
  "digit_char d = ''0123456789'' ! d"

fun str_nat :: "nat \<Rightarrow> string" where
  "str_nat n = (if n < 10 then [digit_char n] else str_nat (n div 10) @ [digit_char (n mod 10)])"

definition str_int :: "int \<Rightarrow> string" where
  "str_int i = (if i < 0 then CHR ''-'' # str_nat (nat (- i)) else str_nat (nat i))"

text \<open>
  \<^verbatim>\<open>str\<close> of an \<^verbatim>\<open>int\<close> is its decimal numeral. \<^verbatim>\<open>str\<close> of a \<^verbatim>\<open>float\<close> (the shortest
  decimal numeral that reads back as the same float) is not defined here: it is the
  parameter \<open>float_str\<close>.
\<close>

fun py_str :: "(pyfloat \<Rightarrow> string) \<Rightarrow> pynum option \<Rightarrow> string" where
  "py_str float_str None = ''None''"
| "py_str float_str (Some (PyInt i)) = str_int i"
| "py_str float_str (Some (PyFloat f)) = float_str f"

section \<open>Data model\<close>

text \<open>
  Modelled from the spec: the class \<^verbatim>\<open>Token\<close> of \<^verbatim>\<open>Token.py\<close>, which is not among the
  sources. The spec calls it an opaque credential object created by \<^verbatim>\<open>login(username,
  password)\<close>; the geocoding helper reads \<^verbatim>\<open>token.username\<close>. All its other fields are the
  record's extension part.
\<close>

record Token =
  username :: string

text \<open>
  Modelled from the spec: the class \<^verbatim>\<open>Vehicle\<close> of \<^verbatim>\<open>Vehicle.py\<close>, which is not among the
  sources. The spec calls it a mutable record of one vehicle's identity and last-known
  telemetry (location, geocoded address, trip info, etc.). The fields named by
  \<^verbatim>\<open>ApiImpl.py\<close> are listed; all other fields are the record's extension part. A
  coordinate is \<^verbatim>\<open>None\<close> or a number; \<^verbatim>\<open>geocode\<close> is \<^verbatim>\<open>None\<close> or a pair.
\<close>

record ('m, 'd) Vehicle =
  location_latitude :: "pynum option"
  location_longitude :: "pynum option"
  geocode :: "(pyval \<times> pyval) option"
  month_trip_info :: "'m option"
  day_trip_info :: "'d option"

type_synonym 't token = "'t Token_scheme"

type_synonym ('m, 'd, 'z) vehicle = "('m, 'd, 'z) Vehicle_scheme"

text \<open>The parameter records of \<^verbatim>\<open>ApiImpl.py\<close>; every field defaults to \<^verbatim>\<open>None\<close>.
  Field names are global, so the \<^verbatim>\<open>defrost\<close> of the schedule options is \<open>schedule_defrost\<close>.\<close>

record ClimateRequestOptions =
  set_temp :: "pyfloat option"
  duration :: "int option"
  defrost :: "bool option"
  climate :: "bool option"
  heating :: "int option"
  front_left_seat :: "int option"
  front_right_seat :: "int option"
  rear_left_seat :: "int option"
  rear_right_seat :: "int option"

record 'w WindowRequestOptions =
  back_left :: "'w option"
  back_right :: "'w option"
  front_left :: "'w option"
  front_right :: "'w option"

record 'time DepartureOptions =
  enabled :: "bool option"
  days :: "int list option"
  time :: "'time option"

record 'time ScheduleChargingClimateRequestOptions =
  first_departure :: "'time DepartureOptions option"
  second_departure :: "'time DepartureOptions option"
  charging_enabled :: "bool option"
  off_peak_start_time :: "'time option"
  off_peak_end_time :: "'time option"
  off_peak_charge_only_enabled :: "bool option"
  climate_enabled :: "bool option"
  temperature :: "pyfloat option"
  temperature_unit :: "int option"
  schedule_defrost :: "bool option"

section \<open>Calls and their effects\<close>

text \<open>
  The exceptions a call can end with: \<^verbatim>\<open>NotImplementedError\<close> with its message, and the
  exception \<^verbatim>\<open>requests.get\<close> raises when the request fails (a network error).
\<close>

datatype exn = NotImplementedError string | RequestException

text \<open>
  What a call leaves behind: the value it returns or the exception it raises (\<open>Inl\<close>), the
  token and the vehicle objects as they are after the call, and the URLs it has requested
  with HTTP GET, in order. A returned \<^verbatim>\<open>None\<close> is \<open>Inr None\<close>.
\<close>

record ('t, 'v, 'r) outcome =
  result :: "exn + 'r"
  token_after :: 't
  vehicle_after :: 'v
  requested :: "string list"

type_synonym ('t, 'm, 'd, 'z, 'r) call = "('t token, ('m, 'd, 'z) vehicle, 'r) outcome"

definition returns :: "'r \<Rightarrow> 't \<Rightarrow> 'v \<Rightarrow> ('t, 'v, 'r) outcome" where
  "returns r token vehicle =
     \<lparr>result = Inr r, token_after = token, vehicle_after = vehicle, requested = []\<rparr>"

definition raises :: "exn \<Rightarrow> 't \<Rightarrow> 'v \<Rightarrow> ('t, 'v, 'r) outcome" where
  "raises e token vehicle =
     \<lparr>result = Inl e, token_after = token, vehicle_after = vehicle, requested = []\<rparr>"

section \<open>The base contract \<^verbatim>\<open>ApiImpl\<close>\<close>

text \<open>
  The arguments typed by the enumerations of \<^verbatim>\<open>const.py\<close> (lock action, window state,
  charge port action, valet mode action) and the status type \<^verbatim>\<open>OrderStatus\<close> are type
  variables: the base methods do not look at them. \<^verbatim>\<open>login\<close> receives neither a token nor
  a vehicle; \<^verbatim>\<open>get_vehicles\<close> receives no vehicle (\<open>()\<close>); \<^verbatim>\<open>refresh_vehicles\<close> receives a
  list of vehicles.
\<close>

definition login :: "string \<Rightarrow> string \<Rightarrow> exn + 't token" where
  "login user password = Inl (NotImplementedError ''required'')"

definition get_vehicles ::
  "'t token \<Rightarrow> ('t token, unit, ('m, 'd, 'z) vehicle list) outcome" where
  "get_vehicles token = raises (NotImplementedError ''required'') token ()"

definition refresh_vehicles ::
  "'t token \<Rightarrow> ('m, 'd, 'z) vehicle list
     \<Rightarrow> ('t token, ('m, 'd, 'z) vehicle list, ('m, 'd, 'z) vehicle list) outcome" where
  "refresh_vehicles token vehicles = returns vehicles token vehicles"

definition update_vehicle_with_cached_state ::
  "'t token \<Rightarrow> ('m, 'd, 'z) vehicle \<Rightarrow> ('t, 'm, 'd, 'z, unit option) call" where
  "update_vehicle_with_cached_state token vehicle =
     raises (NotImplementedError ''required'') token vehicle"

definition check_action_status ::
  "'t token \<Rightarrow> ('m, 'd, 'z) vehicle \<Rightarrow> string \<Rightarrow> bool \<Rightarrow> int
     \<Rightarrow> ('t, 'm, 'd, 'z, 'status option) call" where
  "check_action_status token vehicle action_id synchronous timeout = returns None token vehicle"

definition force_refresh_vehicle_state ::
  "'t token \<Rightarrow> ('m, 'd, 'z) vehicle \<Rightarrow> ('t, 'm, 'd, 'z, unit option) call" where
  "force_refresh_vehicle_state token vehicle =
     raises (NotImplementedError ''required'') token vehicle"

definition lock_action ::
  "'t token \<Rightarrow> ('m, 'd, 'z) vehicle \<Rightarrow> 'action \<Rightarrow> ('t, 'm, 'd, 'z, string) call" where
  "lock_action token vehicle action = raises (NotImplementedError ''required'') token vehicle"

definition start_climate ::
  "'t token \<Rightarrow> ('m, 'd, 'z) vehicle \<Rightarrow> 'c ClimateRequestOptions_scheme
     \<Rightarrow> ('t, 'm, 'd, 'z, string) call" where
  "start_climate token vehicle options = raises (NotImplementedError ''required'') token vehicle"

definition stop_climate :: "'t token \<Rightarrow> ('m, 'd, 'z) vehicle \<Rightarrow> ('t, 'm, 'd, 'z, string) call" where
  "stop_climate token vehicle = raises (NotImplementedError ''required'') token vehicle"

definition start_charge :: "'t token \<Rightarrow> ('m, 'd, 'z) vehicle \<Rightarrow> ('t, 'm, 'd, 'z, string) call" where
  "start_charge token vehicle = raises (NotImplementedError ''required'') token vehicle"

definition stop_charge :: "'t token \<Rightarrow> ('m, 'd, 'z) vehicle \<Rightarrow> ('t, 'm, 'd, 'z, string) call" where
  "stop_charge token vehicle = raises (NotImplementedError ''required'') token vehicle"

definition set_charge_limits ::
  "'t token \<Rightarrow> ('m, 'd, 'z) vehicle \<Rightarrow> int \<Rightarrow> int \<Rightarrow> ('t, 'm, 'd, 'z, string) call" where
  "set_charge_limits token vehicle ac dc = raises (NotImplementedError ''required'') token vehicle"

definition set_charging_current ::
  "'t token \<Rightarrow> ('m, 'd, 'z) vehicle \<Rightarrow> int \<Rightarrow> ('t, 'm, 'd, 'z, string option) call" where
  "set_charging_current token vehicle level = returns None token vehicle"

definition set_windows_state ::
  "'t token \<Rightarrow> ('m, 'd, 'z) vehicle \<Rightarrow> ('w, 'x) WindowRequestOptions_scheme
     \<Rightarrow> ('t, 'm, 'd, 'z, string option) call" where
  "set_windows_state token vehicle options = returns None token vehicle"

definition charge_port_action ::
  "'t token \<Rightarrow> ('m, 'd, 'z) vehicle \<Rightarrow> 'action \<Rightarrow> ('t, 'm, 'd, 'z, string option) call" where
  "charge_port_action token vehicle action = returns None token vehicle"

definition update_month_trip_info ::
  "'t token \<Rightarrow> ('m, 'd, 'z) vehicle \<Rightarrow> string \<Rightarrow> ('t, 'm, 'd, 'z, unit option) call" where
  "update_month_trip_info token vehicle yyyymm_string = returns None token vehicle"

definition update_day_trip_info ::
  "'t token \<Rightarrow> ('m, 'd, 'z) vehicle \<Rightarrow> string \<Rightarrow> ('t, 'm, 'd, 'z, unit option) call" where
  "update_day_trip_info token vehicle yyyymmdd_string = returns None token vehicle"

definition schedule_charging_and_climate ::
  "'t token \<Rightarrow> ('m, 'd, 'z) vehicle \<Rightarrow> ('time, 'x) ScheduleChargingClimateRequestOptions_scheme
     \<Rightarrow> ('t, 'm, 'd, 'z, string option) call" where
  "schedule_charging_and_climate token vehicle options = returns None token vehicle"

definition start_hazard_lights ::
  "'t token \<Rightarrow> ('m, 'd, 'z) vehicle \<Rightarrow> ('t, 'm, 'd, 'z, string option) call" where
  "start_hazard_lights token vehicle = returns None token vehicle"

definition start_hazard_lights_and_horn ::
  "'t token \<Rightarrow> ('m, 'd, 'z) vehicle \<Rightarrow> ('t, 'm, 'd, 'z, string option) call" where
  "start_hazard_lights_and_horn token vehicle = returns None token vehicle"

definition valet_mode_action ::
  "'t token \<Rightarrow> ('m, 'd, 'z) vehicle \<Rightarrow> 'action \<Rightarrow> ('t, 'm, 'd, 'z, string option) call" where
  "valet_mode_action token vehicle action = returns None token vehicle"

section \<open>The geocoding helper\<close>

text \<open>
  Modelled from the spec: \<^verbatim>\<open>get_child_value\<close> of \<^verbatim>\<open>utils.py\<close>, which is not among the
  sources. The spec calls it a tolerant field lookup: a missing field yields absent
  (\<^verbatim>\<open>None\<close>), not an error. It is used here with the keys \<^verbatim>\<open>display_name\<close> and
  \<^verbatim>\<open>address\<close> only; a value that is not a dict has no fields.
\<close>

fun get_child_value :: "pyval \<Rightarrow> string \<Rightarrow> pyval" where
  "get_child_value (PyDict items) key = (case map_of items key of Some v \<Rightarrow> v | None \<Rightarrow> PyNone)"
| "get_child_value _ key = PyNone"

text \<open>
  The network, as \<^verbatim>\<open>update_geocoded_location\<close> uses it. \<^verbatim>\<open>requests.get(url)\<close> raises
  (\<open>Inl\<close>) or returns a response; \<^verbatim>\<open>response.json()\<close> raises \<^verbatim>\<open>JSONDecodeError\<close>
  (\<open>json = None\<close>) or returns the decoded value.
\<close>

datatype response = Response (json: "pyval option")

type_synonym network = "string \<Rightarrow> exn + response"

text \<open>The URL built at lines 114 to 125 of \<^verbatim>\<open>ApiImpl.py\<close>.\<close>

definition geocode_url ::
  "(pyfloat \<Rightarrow> string) \<Rightarrow> 't token \<Rightarrow> ('m, 'd, 'z) vehicle \<Rightarrow> bool \<Rightarrow> string" where
  "geocode_url float_str token vehicle use_email =
     (let email_parameter = (if use_email then ''&email='' @ username token else [])
      in ''https://nominatim.openstreetmap.org/reverse?lat=''
         @ py_str float_str (location_latitude vehicle)
         @ ''&lon=''
         @ py_str float_str (location_longitude vehicle)
         @ ''&format=json&addressdetails=1&zoom=18''
         @ email_parameter)"

text \<open>
  \<^verbatim>\<open>update_geocoded_location\<close>. The call of \<^verbatim>\<open>requests.get\<close> stands before the
  \<^verbatim>\<open>try\<close>, so what it raises leaves the function; the \<^verbatim>\<open>except\<close> clause catches the
  \<^verbatim>\<open>JSONDecodeError\<close> of \<^verbatim>\<open>response.json()\<close>. The debug log lines are left out.
\<close>

definition update_geocoded_location ::
  "(pyfloat \<Rightarrow> string) \<Rightarrow> network \<Rightarrow> 't token \<Rightarrow> ('m, 'd, 'z) vehicle \<Rightarrow> bool
     \<Rightarrow> ('t, 'm, 'd, 'z, unit option) call" where
  "update_geocoded_location float_str get token vehicle use_email =
     (if truthy (location_latitude vehicle) \<and> truthy (location_longitude vehicle) then
        (let url = geocode_url float_str token vehicle use_email in
         case get url of
           Inl e \<Rightarrow>
             \<lparr>result = Inl e, token_after = token, vehicle_after = vehicle, requested = [url]\<rparr>
         | Inr response \<Rightarrow>
             (case json response of
                None \<Rightarrow>
                  \<lparr>result = Inr None, token_after = token,
                   vehicle_after = vehicle\<lparr>geocode := None\<rparr>, requested = [url]\<rparr>
              | Some decoded \<Rightarrow>
                  \<lparr>result = Inr None, token_after = token,
                   vehicle_after = vehicle\<lparr>geocode :=
                     Some (get_child_value decoded ''display_name'',
                           get_child_value decoded ''address'')\<rparr>,
                   requested = [url]\<rparr>))
      else returns None token vehicle)"

section \<open>Example inputs\<close>

definition example_token :: Token where
  "example_token = \<lparr>username = ''driver@example.org''\<rparr>"

definition example_vehicle :: "(unit, unit) Vehicle" where
  "example_vehicle =
     \<lparr>location_latitude = Some (PyFloat (Finite 48.8566)),
      location_longitude = Some (PyFloat (Finite 2.3522)),
      geocode = Some (PyStr ''Old Street 1'', PyNone),
      month_trip_info = None, day_trip_info = None\<rparr>"

text \<open>A rendering of floats that agrees with \<^verbatim>\<open>str\<close> on the coordinates of the example.\<close>

definition example_float_str :: "pyfloat \<Rightarrow> string" where
  "example_float_str f =
     (if f = Finite 48.8566 then ''48.8566''
      else if f = Finite 2.3522 then ''2.3522''
      else ''0.0'')"

definition network_down :: network where
  "network_down url = Inl RequestException"

definition network_not_json :: network where
  "network_not_json url = Inr (Response None)"

definition springfield :: pyval where
  "springfield =
     PyDict [(''display_name'', PyStr ''123 Main St''),
             (''address'', PyDict [(''city'', PyStr ''Springfield'')])]"

definition network_springfield :: network where
  "network_springfield url = Inr (Response (Some springfield))"

section \<open>Characters of the request URL\<close>

lemma digit_char_no_amp: "d < 10 \<Longrightarrow> digit_char d \<noteq> CHR ''&''"
proof -
  assume "d < 10"
  then have "d \<in> {0, 1, 2, 3, 4, 5, 6, 7, 8, 9}" by auto
  then show ?thesis by (auto simp: digit_char_def)
qed

lemma str_nat_no_amp: "CHR ''&'' \<notin> set (str_nat n)"
proof (induction n rule: str_nat.induct)
  case (1 n)
  show ?case
  proof (cases "n < 10")
    case True
    then show ?thesis using digit_char_no_amp [of n] by (subst str_nat.simps) simp
  next
    case False
    have "n mod 10 < 10" by simp
    then have "digit_char (n mod 10) \<noteq> CHR ''&''" by (rule digit_char_no_amp)
    with False "1.IH" show ?thesis by (subst str_nat.simps) auto
  qed
qed

lemma str_int_no_amp: "CHR ''&'' \<notin> set (str_int i)"
  by (simp add: str_int_def str_nat_no_amp del: str_nat.simps)

lemma py_str_no_amp:
  assumes "\<forall>f. CHR ''&'' \<notin> set (float_str f)"
  shows "CHR ''&'' \<notin> set (py_str float_str c)"
proof (cases c)
  case None
  then show ?thesis by simp
next
  case (Some n)
  then show ?thesis using assms by (cases n) (simp_all add: str_int_no_amp)
qed

lemma sublist_skip: "c \<notin> set xs \<Longrightarrow> sublist (c # p) (xs @ ys) = sublist (c # p) ys"
  by (induction xs) (auto simp: sublist_Cons_right)

lemma no_email_in_plain_url:
  assumes "CHR ''&'' \<notin> set s1" and "CHR ''&'' \<notin> set s2"
  shows "\<not> sublist ''&email=''
          (''https://nominatim.openstreetmap.org/reverse?lat='' @ s1 @ ''&lon='' @ s2
            @ ''&format=json&addressdetails=1&zoom=18'')"
  using assms by (simp add: sublist_Cons_right sublist_skip)

lemma requested_geocode_url:
  assumes "truthy (location_latitude vehicle)" and "truthy (location_longitude vehicle)"
  shows "requested (update_geocoded_location float_str get token vehicle use_email)
      = [geocode_url float_str token vehicle use_email]"
  using assms
  by (simp add: update_geocoded_location_def Let_def split: sum.split option.split)

section \<open>The base contract: defaults\<close>

text \<open>
  C3. On the base contract, every mandatory operation (\<^verbatim>\<open>login\<close>, \<^verbatim>\<open>get_vehicles\<close>,
  \<^verbatim>\<open>update_vehicle_with_cached_state\<close>, \<^verbatim>\<open>force_refresh_vehicle_state\<close>, \<^verbatim>\<open>lock_action\<close>,
  \<^verbatim>\<open>start_climate\<close>, \<^verbatim>\<open>stop_climate\<close>, \<^verbatim>\<open>start_charge\<close>, \<^verbatim>\<open>stop_charge\<close>,
  \<^verbatim>\<open>set_charge_limits\<close>) raises \<^verbatim>\<open>NotImplementedError\<close>, whatever its arguments.
\<close>

theorem mandatory_operations_not_implemented:
  "(login user password :: exn + 't token) = Inl (NotImplementedError ''required'')
   \<and> result (get_vehicles token :: ('t token, unit, ('m, 'd, 'z) vehicle list) outcome)
       = Inl (NotImplementedError ''required'')
   \<and> result (update_vehicle_with_cached_state token vehicle) = Inl (NotImplementedError ''required'')
   \<and> result (force_refresh_vehicle_state token vehicle) = Inl (NotImplementedError ''required'')
   \<and> result (lock_action token vehicle lock) = Inl (NotImplementedError ''required'')
   \<and> result (start_climate token vehicle climate_options) = Inl (NotImplementedError ''required'')
   \<and> result (stop_climate token vehicle) = Inl (NotImplementedError ''required'')
   \<and> result (start_charge token vehicle) = Inl (NotImplementedError ''required'')
   \<and> result (stop_charge token vehicle) = Inl (NotImplementedError ''required'')
   \<and> result (set_charge_limits token vehicle ac dc) = Inl (NotImplementedError ''required'')"
  by (simp add: login_def get_vehicles_def update_vehicle_with_cached_state_def
      force_refresh_vehicle_state_def lock_action_def start_climate_def stop_climate_def
      start_charge_def stop_charge_def set_charge_limits_def raises_def)

text \<open>
  C4. On the base contract, every optional operation (\<^verbatim>\<open>check_action_status\<close> for every
  value of \<^verbatim>\<open>synchronous\<close> and \<^verbatim>\<open>timeout\<close>, \<^verbatim>\<open>set_charging_current\<close>,
  \<^verbatim>\<open>set_windows_state\<close>, \<^verbatim>\<open>charge_port_action\<close>, \<^verbatim>\<open>update_month_trip_info\<close>,
  \<^verbatim>\<open>update_day_trip_info\<close>, \<^verbatim>\<open>schedule_charging_and_climate\<close>, \<^verbatim>\<open>start_hazard_lights\<close>,
  \<^verbatim>\<open>start_hazard_lights_and_horn\<close>, \<^verbatim>\<open>valet_mode_action\<close>) returns \<^verbatim>\<open>None\<close> and does not
  raise.
\<close>

theorem optional_operations_return_none:
  "result (check_action_status token vehicle action_id synchronous timeout) = Inr None
   \<and> result (set_charging_current token vehicle level) = Inr None
   \<and> result (set_windows_state token vehicle window_options) = Inr None
   \<and> result (charge_port_action token vehicle port) = Inr None
   \<and> result (update_month_trip_info token vehicle yyyymm_string) = Inr None
   \<and> result (update_day_trip_info token vehicle yyyymmdd_string) = Inr None
   \<and> result (schedule_charging_and_climate token vehicle schedule_options) = Inr None
   \<and> result (start_hazard_lights token vehicle) = Inr None
   \<and> result (start_hazard_lights_and_horn token vehicle) = Inr None
   \<and> result (valet_mode_action token vehicle valet) = Inr None"
  by (simp add: check_action_status_def set_charging_current_def set_windows_state_def
      charge_port_action_def update_month_trip_info_def update_day_trip_info_def
      schedule_charging_and_climate_def start_hazard_lights_def
      start_hazard_lights_and_horn_def valet_mode_action_def returns_def)

text \<open>
  C5. On the base contract \<^verbatim>\<open>refresh_vehicles(token, vehicles)\<close> returns \<^verbatim>\<open>vehicles\<close>, for
  every token and every list of vehicles, the empty list too, and the list is as it was.
\<close>

theorem refresh_vehicles_identity:
  "result (refresh_vehicles token vehicles) = Inr vehicles
   \<and> vehicle_after (refresh_vehicles token vehicles) = vehicles
   \<and> result (refresh_vehicles token ([] :: ('m, 'd, 'z) vehicle list)) = Inr []"
  by (simp add: refresh_vehicles_def returns_def)

text \<open>
  C10. The optional operations of the base contract have no effect: after each of them the
  vehicle and the token are what they were; \<^verbatim>\<open>update_month_trip_info\<close> and
  \<^verbatim>\<open>update_day_trip_info\<close> do not write \<^verbatim>\<open>vehicle.month_trip_info\<close> or
  \<^verbatim>\<open>vehicle.day_trip_info\<close>.
\<close>

theorem optional_operations_no_effect:
  "vehicle_after (check_action_status token vehicle action_id synchronous timeout
       :: ('t, 'm, 'd, 'z, 'status option) call) = vehicle
   \<and> token_after (check_action_status token vehicle action_id synchronous timeout
       :: ('t, 'm, 'd, 'z, 'status option) call) = token
   \<and> vehicle_after (set_charging_current token vehicle level) = vehicle
   \<and> token_after (set_charging_current token vehicle level) = token
   \<and> vehicle_after (set_windows_state token vehicle window_options) = vehicle
   \<and> token_after (set_windows_state token vehicle window_options) = token
   \<and> vehicle_after (charge_port_action token vehicle port) = vehicle
   \<and> token_after (charge_port_action token vehicle port) = token
   \<and> vehicle_after (update_month_trip_info token vehicle yyyymm_string) = vehicle
   \<and> token_after (update_month_trip_info token vehicle yyyymm_string) = token
   \<and> vehicle_after (update_day_trip_info token vehicle yyyymmdd_string) = vehicle
   \<and> token_after (update_day_trip_info token vehicle yyyymmdd_string) = token
   \<and> vehicle_after (schedule_charging_and_climate token vehicle schedule_options) = vehicle
   \<and> token_after (schedule_charging_and_climate token vehicle schedule_options) = token
   \<and> vehicle_after (start_hazard_lights token vehicle) = vehicle
   \<and> token_after (start_hazard_lights token vehicle) = token
   \<and> vehicle_after (start_hazard_lights_and_horn token vehicle) = vehicle
   \<and> token_after (start_hazard_lights_and_horn token vehicle) = token
   \<and> vehicle_after (valet_mode_action token vehicle valet) = vehicle
   \<and> token_after (valet_mode_action token vehicle valet) = token
   \<and> month_trip_info (vehicle_after (update_month_trip_info token vehicle yyyymm_string))
       = month_trip_info vehicle
   \<and> day_trip_info (vehicle_after (update_day_trip_info token vehicle yyyymmdd_string))
       = day_trip_info vehicle"
  by (simp add: check_action_status_def set_charging_current_def set_windows_state_def
      charge_port_action_def update_month_trip_info_def update_day_trip_info_def
      schedule_charging_and_climate_def start_hazard_lights_def
      start_hazard_lights_and_horn_def valet_mode_action_def returns_def)

section \<open>The geocoding helper: guard\<close>

text \<open>
  C6. When \<^verbatim>\<open>vehicle.location_latitude\<close> is \<^verbatim>\<open>None\<close> or \<^verbatim>\<open>vehicle.location_longitude\<close> is
  \<^verbatim>\<open>None\<close>, \<^verbatim>\<open>update_geocoded_location\<close> does nothing: the vehicle, and so its
  \<^verbatim>\<open>geocode\<close>, is as it was, no URL is requested, and the call returns without raising.
\<close>

theorem unset_coordinate_no_op:
  assumes "location_latitude vehicle = None \<or> location_longitude vehicle = None"
  shows "vehicle_after (update_geocoded_location float_str get token vehicle use_email) = vehicle
    \<and> geocode (vehicle_after (update_geocoded_location float_str get token vehicle use_email))
        = geocode vehicle
    \<and> requested (update_geocoded_location float_str get token vehicle use_email) = []
    \<and> result (update_geocoded_location float_str get token vehicle use_email) = Inr None"
  using assms by (auto simp: update_geocoded_location_def returns_def)

theorem unset_coordinate_no_op_witness:
  "(location_latitude (example_vehicle\<lparr>location_latitude := None\<rparr>) = None
      \<or> location_longitude (example_vehicle\<lparr>location_latitude := None\<rparr>) = None)
   \<and> geocode (vehicle_after (update_geocoded_location example_float_str network_springfield
         example_token (example_vehicle\<lparr>location_latitude := None\<rparr>) True))
       = Some (PyStr ''Old Street 1'', PyNone)
   \<and> requested (update_geocoded_location example_float_str network_springfield
         example_token (example_vehicle\<lparr>location_latitude := None\<rparr>) True) = []"
proof -
  have h: "location_latitude (example_vehicle\<lparr>location_latitude := None\<rparr>) = None
      \<or> location_longitude (example_vehicle\<lparr>location_latitude := None\<rparr>) = None"
    by simp
  show ?thesis
    using h unset_coordinate_no_op [OF h, of example_float_str network_springfield
        example_token True]
    by (simp add: example_vehicle_def)
qed

text \<open>
  C9. A coordinate that is set but falsy, such as the \<^verbatim>\<open>int\<close> \<^verbatim>\<open>0\<close> or the \<^verbatim>\<open>float\<close>
  \<^verbatim>\<open>0.0\<close>, is treated like an unset one: the guard tests the truth value, so no URL is
  requested and the vehicle, and so its \<^verbatim>\<open>geocode\<close>, is as it was.
\<close>

theorem falsy_coordinate_no_op:
  assumes "c = location_latitude vehicle \<or> c = location_longitude vehicle"
    and "c \<noteq> None" and "\<not> truthy c"
  shows "vehicle_after (update_geocoded_location float_str get token vehicle use_email) = vehicle
    \<and> geocode (vehicle_after (update_geocoded_location float_str get token vehicle use_email))
        = geocode vehicle
    \<and> requested (update_geocoded_location float_str get token vehicle use_email) = []
    \<and> result (update_geocoded_location float_str get token vehicle use_email) = Inr None
    \<and> \<not> truthy (Some (PyInt 0)) \<and> \<not> truthy (Some (PyFloat (Finite 0)))"
  using assms by (auto simp: update_geocoded_location_def returns_def)

theorem falsy_coordinate_no_op_witness:
  "Some (PyFloat (Finite 0)) = location_longitude (example_vehicle\<lparr>location_longitude := Some (PyFloat (Finite 0))\<rparr>)
   \<and> Some (PyFloat (Finite 0)) \<noteq> None
   \<and> \<not> truthy (Some (PyFloat (Finite 0)))
   \<and> geocode (vehicle_after (update_geocoded_location example_float_str network_springfield
         example_token (example_vehicle\<lparr>location_longitude := Some (PyFloat (Finite 0))\<rparr>) True))
       = Some (PyStr ''Old Street 1'', PyNone)
   \<and> requested (update_geocoded_location example_float_str network_springfield
         example_token (example_vehicle\<lparr>location_longitude := Some (PyFloat (Finite 0))\<rparr>) True) = []"
proof -
  have h1: "Some (PyFloat (Finite 0)) = location_latitude (example_vehicle\<lparr>location_longitude := Some (PyFloat (Finite 0))\<rparr>)
      \<or> Some (PyFloat (Finite 0)) = location_longitude (example_vehicle\<lparr>location_longitude := Some (PyFloat (Finite 0))\<rparr>)"
    by simp
  have h2: "Some (PyFloat (Finite 0)) \<noteq> None" by simp
  have h3: "\<not> truthy (Some (PyFloat (Finite 0)))" by simp
  show ?thesis
    using falsy_coordinate_no_op [OF h1 h2 h3, of example_float_str network_springfield
        example_token True]
    by (simp add: example_vehicle_def)
qed

section \<open>The geocoding helper: request and response\<close>

text \<open>
  C2. With truthy latitude and longitude, when the GET succeeds and the body decodes to a
  JSON object, \<^verbatim>\<open>update_geocoded_location\<close> sets \<^verbatim>\<open>vehicle.geocode\<close> to the pair of the
  object's \<^verbatim>\<open>display_name\<close> and \<^verbatim>\<open>address\<close> fields, and returns without raising; a field
  the object does not have gives \<^verbatim>\<open>None\<close> in its place.
\<close>

theorem geocode_from_response:
  assumes "truthy (location_latitude vehicle)" and "truthy (location_longitude vehicle)"
    and "get (geocode_url float_str token vehicle use_email) = Inr (Response (Some (PyDict items)))"
  shows "geocode (vehicle_after (update_geocoded_location float_str get token vehicle use_email))
      = Some (case map_of items ''display_name'' of Some v \<Rightarrow> v | None \<Rightarrow> PyNone,
              case map_of items ''address'' of Some v \<Rightarrow> v | None \<Rightarrow> PyNone)
    \<and> result (update_geocoded_location float_str get token vehicle use_email) = Inr None"
  using assms by (simp add: update_geocoded_location_def)

theorem geocode_from_response_witness:
  "truthy (location_latitude example_vehicle) \<and> truthy (location_longitude example_vehicle)
   \<and> network_springfield (geocode_url example_float_str example_token example_vehicle True)
       = Inr (Response (Some (PyDict [(''display_name'', PyStr ''123 Main St''),
             (''address'', PyDict [(''city'', PyStr ''Springfield'')])])))
   \<and> geocode (vehicle_after (update_geocoded_location example_float_str network_springfield
         example_token example_vehicle True))
       = Some (PyStr ''123 Main St'', PyDict [(''city'', PyStr ''Springfield'')])"
proof -
  have h1: "truthy (location_latitude example_vehicle)" by (simp add: example_vehicle_def)
  have h2: "truthy (location_longitude example_vehicle)" by (simp add: example_vehicle_def)
  have h3: "network_springfield (geocode_url example_float_str example_token example_vehicle True)
       = Inr (Response (Some (PyDict [(''display_name'', PyStr ''123 Main St''),
             (''address'', PyDict [(''city'', PyStr ''Springfield'')])])))"
    by (simp add: network_springfield_def springfield_def)
  show ?thesis
    using h1 h2 h3
      geocode_from_response [where get = network_springfield and float_str = example_float_str
        and token = example_token and use_email = True, OF h1 h2 h3]
    by simp
qed

text \<open>
  C1, as the code has it. With truthy latitude and longitude, when the GET returns a response
  whose body cannot be decoded as JSON, \<^verbatim>\<open>update_geocoded_location\<close> sets
  \<^verbatim>\<open>vehicle.geocode\<close> to \<^verbatim>\<open>None\<close>, returns without raising, and leaves every other field of
  the vehicle as it was. A network error raised by the GET is not part of this statement.
\<close>

theorem undecodable_response_clears_geocode:
  assumes "truthy (location_latitude vehicle)" and "truthy (location_longitude vehicle)"
    and "get (geocode_url float_str token vehicle use_email) = Inr (Response None)"
  shows "result (update_geocoded_location float_str get token vehicle use_email) = Inr None
    \<and> geocode (vehicle_after (update_geocoded_location float_str get token vehicle use_email))
        = None
    \<and> vehicle_after (update_geocoded_location float_str get token vehicle use_email)
        = vehicle\<lparr>geocode := None\<rparr>"
  using assms by (simp add: update_geocoded_location_def)

theorem undecodable_response_clears_geocode_witness:
  "truthy (location_latitude example_vehicle) \<and> truthy (location_longitude example_vehicle)
   \<and> network_not_json (geocode_url example_float_str example_token example_vehicle False)
       = Inr (Response None)
   \<and> result (update_geocoded_location example_float_str network_not_json example_token
         example_vehicle False) = Inr None
   \<and> geocode (vehicle_after (update_geocoded_location example_float_str network_not_json
         example_token example_vehicle False)) = None"
proof -
  have h1: "truthy (location_latitude example_vehicle)" by (simp add: example_vehicle_def)
  have h2: "truthy (location_longitude example_vehicle)" by (simp add: example_vehicle_def)
  have h3: "network_not_json (geocode_url example_float_str example_token example_vehicle False)
       = Inr (Response None)"
    by (simp add: network_not_json_def)
  show ?thesis
    using h1 h2 h3
      undecodable_response_clears_geocode [where get = network_not_json
        and float_str = example_float_str and token = example_token and use_email = False,
        OF h1 h2 h3]
    by simp
qed

text \<open>
  C1, as stated, fails: the spec counts a network error of the GET among the failures that
  are recovered locally, but \<^verbatim>\<open>requests.get\<close> is called outside the \<^verbatim>\<open>try\<close>. On the example
  vehicle, whose coordinates are truthy, with a network that raises on every request, the
  exception reaches the caller and \<^verbatim>\<open>vehicle.geocode\<close> keeps its old value.
\<close>

theorem network_error_propagates:
  "truthy (location_latitude example_vehicle) \<and> truthy (location_longitude example_vehicle)
   \<and> network_down (geocode_url example_float_str example_token example_vehicle False)
       = Inl RequestException
   \<and> result (update_geocoded_location example_float_str network_down example_token
         example_vehicle False) = Inl RequestException
   \<and> geocode (vehicle_after (update_geocoded_location example_float_str network_down
         example_token example_vehicle False)) = Some (PyStr ''Old Street 1'', PyNone)"
  by (simp add: update_geocoded_location_def example_vehicle_def network_down_def)

text \<open>
  C8. No operation of the base contract changes the token it is given: after the call,
  returned or raised, the token is what it was. (\<^verbatim>\<open>login\<close> is given no token.)
\<close>

theorem token_never_mutated:
  "token_after (get_vehicles token :: ('t token, unit, ('m, 'd, 'z) vehicle list) outcome) = token
   \<and> token_after (refresh_vehicles token vehicles) = token
   \<and> token_after (update_vehicle_with_cached_state token vehicle) = token
   \<and> token_after (check_action_status token vehicle action_id synchronous timeout
        :: ('t, 'm, 'd, 'z, 'status option) call) = token
   \<and> token_after (force_refresh_vehicle_state token vehicle) = token
   \<and> token_after (update_geocoded_location float_str get token vehicle use_email) = token
   \<and> token_after (lock_action token vehicle lock) = token
   \<and> token_after (start_climate token vehicle climate_options) = token
   \<and> token_after (stop_climate token vehicle) = token
   \<and> token_after (start_charge token vehicle) = token
   \<and> token_after (stop_charge token vehicle) = token
   \<and> token_after (set_charge_limits token vehicle ac dc) = token
   \<and> token_after (set_charging_current token vehicle level) = token
   \<and> token_after (set_windows_state token vehicle window_options) = token
   \<and> token_after (charge_port_action token vehicle port) = token
   \<and> token_after (update_month_trip_info token vehicle yyyymm_string) = token
   \<and> token_after (update_day_trip_info token vehicle yyyymmdd_string) = token
   \<and> token_after (schedule_charging_and_climate token vehicle schedule_options) = token
   \<and> token_after (start_hazard_lights token vehicle) = token
   \<and> token_after (start_hazard_lights_and_horn token vehicle) = token
   \<and> token_after (valet_mode_action token vehicle valet) = token"
proof -
  have geo: "token_after (update_geocoded_location float_str get token vehicle use_email) = token"
    by (simp add: update_geocoded_location_def returns_def Let_def
        split: sum.split option.split)
  show ?thesis
    by (simp add: geo get_vehicles_def refresh_vehicles_def update_vehicle_with_cached_state_def
        check_action_status_def force_refresh_vehicle_state_def lock_action_def
        start_climate_def stop_climate_def start_charge_def stop_charge_def
        set_charge_limits_def set_charging_current_def set_windows_state_def
        charge_port_action_def update_month_trip_info_def update_day_trip_info_def
        schedule_charging_and_climate_def start_hazard_lights_def
        start_hazard_lights_and_horn_def valet_mode_action_def returns_def raises_def)
qed

text \<open>
  C7, as the code has it. With truthy latitude and longitude, \<^verbatim>\<open>update_geocoded_location\<close>
  requests one URL, and that URL is
  \<^verbatim>\<open>https://nominatim.openstreetmap.org/reverse?lat=\<close>\<open>str(latitude)\<close>\<^verbatim>\<open>&lon=\<close>\<open>str(longitude)\<close>\<^verbatim>\<open>&format=json&addressdetails=1&zoom=18\<close>,
  followed by \<^verbatim>\<open>&email=\<close>\<open>token.username\<close> when \<^verbatim>\<open>use_email\<close> is true and by nothing
  otherwise; it contains \<^verbatim>\<open>&email=\<close>\<open>token.username\<close> exactly when \<^verbatim>\<open>use_email\<close> is true.
  The rendering of floats is a parameter; of it the second part needs that it writes no
  \<^verbatim>\<open>&\<close>, as \<^verbatim>\<open>str\<close> does not.
\<close>

theorem geocode_request_url:
  assumes "truthy (location_latitude vehicle)" and "truthy (location_longitude vehicle)"
    and "\<forall>f. CHR ''&'' \<notin> set (float_str f)"
  shows "requested (update_geocoded_location float_str get token vehicle use_email)
      = [''https://nominatim.openstreetmap.org/reverse?lat=''
         @ py_str float_str (location_latitude vehicle)
         @ ''&lon=''
         @ py_str float_str (location_longitude vehicle)
         @ ''&format=json&addressdetails=1&zoom=18''
         @ (if use_email then ''&email='' @ username token else [])]
    \<and> (sublist (''&email='' @ username token)
         (''https://nominatim.openstreetmap.org/reverse?lat=''
          @ py_str float_str (location_latitude vehicle)
          @ ''&lon=''
          @ py_str float_str (location_longitude vehicle)
          @ ''&format=json&addressdetails=1&zoom=18''
          @ (if use_email then ''&email='' @ username token else []))
        \<longleftrightarrow> use_email)"
proof -
  define s1 where "s1 = py_str float_str (location_latitude vehicle)"
  define s2 where "s2 = py_str float_str (location_longitude vehicle)"
  define url where "url = ''https://nominatim.openstreetmap.org/reverse?lat='' @ s1 @ ''&lon=''
      @ s2 @ ''&format=json&addressdetails=1&zoom=18''
      @ (if use_email then ''&email='' @ username token else [])"
  have "geocode_url float_str token vehicle use_email = url"
    by (simp add: url_def geocode_url_def s1_def s2_def)
  with assms(1,2)
  have req: "requested (update_geocoded_location float_str get token vehicle use_email) = [url]"
    by (simp add: requested_geocode_url)
  have email: "sublist (''&email='' @ username token) url \<longleftrightarrow> use_email"
  proof (cases use_email)
    case True
    then have "url = (''https://nominatim.openstreetmap.org/reverse?lat='' @ s1 @ ''&lon='' @ s2
        @ ''&format=json&addressdetails=1&zoom=18'') @ (''&email='' @ username token)"
      by (simp add: url_def)
    then have "sublist (''&email='' @ username token) url"
      by (metis sublist_append_leftI)
    with True show ?thesis by simp
  next
    case False
    have a1: "CHR ''&'' \<notin> set s1" unfolding s1_def using assms(3) by (rule py_str_no_amp)
    have a2: "CHR ''&'' \<notin> set s2" unfolding s2_def using assms(3) by (rule py_str_no_amp)
    from False have plain: "url = ''https://nominatim.openstreetmap.org/reverse?lat='' @ s1
        @ ''&lon='' @ s2 @ ''&format=json&addressdetails=1&zoom=18''"
      by (simp add: url_def)
    have "\<not> sublist ''&email='' url"
      unfolding plain using a1 a2 by (rule no_email_in_plain_url)
    moreover have "sublist ''&email='' (''&email='' @ username token)"
      by (rule sublist_append_rightI)
    ultimately have "\<not> sublist (''&email='' @ username token) url"
      using sublist_order.order_trans by blast
    with False show ?thesis by simp
  qed
  from req email show ?thesis
    unfolding url_def s1_def s2_def by (rule conjI)
qed

theorem geocode_request_url_witness:
  "truthy (location_latitude example_vehicle) \<and> truthy (location_longitude example_vehicle)
   \<and> (\<forall>f. CHR ''&'' \<notin> set (example_float_str f))
   \<and> requested (update_geocoded_location example_float_str network_springfield
         example_token example_vehicle True)
       = [''https://nominatim.openstreetmap.org/reverse?lat=48.8566&lon=2.3522&format=json&addressdetails=1&zoom=18&email=driver@example.org'']
   \<and> sublist ''&email=driver@example.org''
         ''https://nominatim.openstreetmap.org/reverse?lat=48.8566&lon=2.3522&format=json&addressdetails=1&zoom=18&email=driver@example.org''"
proof -
  have h1: "truthy (location_latitude example_vehicle)" by (simp add: example_vehicle_def)
  have h2: "truthy (location_longitude example_vehicle)" by (simp add: example_vehicle_def)
  have h3: "\<forall>f. CHR ''&'' \<notin> set (example_float_str f)" by (simp add: example_float_str_def)
  have s1: "py_str example_float_str (location_latitude example_vehicle) = ''48.8566''"
    by (simp add: example_vehicle_def example_float_str_def)
  have s2: "py_str example_float_str (location_longitude example_vehicle) = ''2.3522''"
    by (simp add: example_vehicle_def example_float_str_def)
  have u: "username example_token = ''driver@example.org''"
    by (simp add: example_token_def)
  show ?thesis
    using h1 h2 h3
      geocode_request_url [where get = network_springfield and float_str = example_float_str
        and token = example_token and use_email = True and vehicle = example_vehicle,
        OF h1 h2 h3]
    by (simp add: s1 s2 u)
qed

text \<open>
  C7, as stated, fails: it speaks of every vehicle with both coordinates set, but the guard
  tests their truth value. On the example vehicle with latitude \<^verbatim>\<open>0.0\<close>, both coordinates
  are set and no URL is requested at all, so none carries the parameters.
\<close>

theorem zero_latitude_requests_no_url:
  "location_latitude (example_vehicle\<lparr>location_latitude := Some (PyFloat (Finite 0))\<rparr>) \<noteq> None
   \<and> location_longitude (example_vehicle\<lparr>location_latitude := Some (PyFloat (Finite 0))\<rparr>)
       \<noteq> None
   \<and> requested (update_geocoded_location example_float_str network_springfield example_token
         (example_vehicle\<lparr>location_latitude := Some (PyFloat (Finite 0))\<rparr>) True) = []"
  by (simp add: update_geocoded_location_def example_vehicle_def returns_def)

end
